theory Spec2Isabelle
  imports Complex_Main "HOL-Library.AList" "HOL-Library.Multiset"
begin

section \<open>JSON values as Python sees them\<close>

text \<open>
  Scorecard documents are what \<^verbatim>\<open>response.json()\<close> returns: \<^verbatim>\<open>None\<close>, booleans,
  numbers, strings, lists and dicts with string keys. A number is modelled by its value
  (Python's \<^verbatim>\<open>int\<close> and \<^verbatim>\<open>float\<close> agree on truthiness, equality and hashing, the only
  operations used here). A dict is the list of its items; lookup takes the first item
  of a key.
\<close>

datatype pyval =
    PNone
  | PBool bool
  | PNum rat
  | PStr string
  | PList "pyval list"
  | PDict "(string \<times> pyval) list"

datatype error = AttributeError | TypeError | KeyError | ClientError | DecodeError

text \<open>Python's truth value of an object (\<^verbatim>\<open>not x\<close>, \<^verbatim>\<open>x and ...\<close>).\<close>

fun truthy :: "pyval \<Rightarrow> bool" where
  "truthy PNone = False"
| "truthy (PBool b) = b"
| "truthy (PNum r) = (r \<noteq> 0)"
| "truthy (PStr s) = (s \<noteq> [])"
| "truthy (PList xs) = (xs \<noteq> [])"
| "truthy (PDict kvs) = (kvs \<noteq> [])"

text \<open>\<^verbatim>\<open>obj.get(key, default)\<close>: only a dict has the method.\<close>

fun dict_get :: "pyval \<Rightarrow> string \<Rightarrow> pyval \<Rightarrow> error + pyval" where
  "dict_get (PDict kvs) k d = Inr (case map_of kvs k of None \<Rightarrow> d | Some v \<Rightarrow> v)"
| "dict_get _ k d = Inl AttributeError"

text \<open>
  \<^verbatim>\<open>for item in obj\<close>: a list yields its elements, a dict its keys, a string its
  characters; the other values are not iterable.
\<close>

fun py_iter :: "pyval \<Rightarrow> error + pyval list" where
  "py_iter (PList xs) = Inr xs"
| "py_iter (PDict kvs) = Inr (map (\<lambda>kv. PStr (fst kv)) kvs)"
| "py_iter (PStr s) = Inr (map (\<lambda>c. PStr [c]) s)"
| "py_iter _ = Inl TypeError"

fun is_prefix :: "string \<Rightarrow> string \<Rightarrow> bool" where
  "is_prefix [] ys = True"
| "is_prefix (x # xs) [] = False"
| "is_prefix (x # xs) (y # ys) = (x = y \<and> is_prefix xs ys)"

fun has_substring :: "string \<Rightarrow> string \<Rightarrow> bool" where
  "has_substring pat [] = (pat = [])"
| "has_substring pat (c # cs) = (is_prefix pat (c # cs) \<or> has_substring pat cs)"

text \<open>\<^verbatim>\<open>key in obj\<close> for a string \<^verbatim>\<open>key\<close>.\<close>

fun py_contains :: "string \<Rightarrow> pyval \<Rightarrow> error + bool" where
  "py_contains k (PDict kvs) = Inr (map_of kvs k \<noteq> None)"
| "py_contains k (PList xs) = Inr (PStr k \<in> set xs)"
| "py_contains k (PStr s) = Inr (has_substring k s)"
| "py_contains k _ = Inl TypeError"

text \<open>\<^verbatim>\<open>obj[key]\<close> for a string \<^verbatim>\<open>key\<close>.\<close>

fun py_getitem :: "pyval \<Rightarrow> string \<Rightarrow> error + pyval" where
  "py_getitem (PDict kvs) k = (case map_of kvs k of None \<Rightarrow> Inl KeyError | Some v \<Rightarrow> Inr v)"
| "py_getitem _ k = Inl TypeError"

section \<open>The scorecard normalizer (tickertape\_api.py)\<close>

text \<open>The summary is a Python dict, kept as the list of its items in insertion order.\<close>

type_synonym summary = "(string \<times> pyval) list"

definition default_summary :: summary where
  "default_summary =
     [(''Performance_Score'', PStr ''N/A''), (''Valuation_Score'', PStr ''N/A''),
      (''Growth_Score'', PStr ''N/A''), (''Profitability_Score'', PStr ''N/A''),
      (''Entry_Point_Score'', PStr ''N/A''), (''Red_Flags_Score'', PStr ''N/A'')]"

definition category_map :: "(string \<times> string) list" where
  "category_map =
     [(''Performance'', ''Performance_Score''),
      (''Valuation'', ''Valuation_Score''),
      (''Growth'', ''Growth_Score''),
      (''Profitability'', ''Profitability_Score''),
      (''Entry point'', ''Entry_Point_Score''),
      (''Red flags'', ''Red_Flags_Score'')]"

text \<open>
  \<^verbatim>\<open>name in category_map\<close> hashes \<^verbatim>\<open>name\<close>: a list or a dict raises TypeError, any
  other value that is not one of the six strings is simply not a key. The result is the
  summary key \<^verbatim>\<open>category_map[name]\<close> when there is one.
\<close>

fun category_lookup :: "pyval \<Rightarrow> error + string option" where
  "category_lookup (PStr n) = Inr (map_of category_map n)"
| "category_lookup (PList xs) = Inl TypeError"
| "category_lookup (PDict kvs) = Inl TypeError"
| "category_lookup _ = Inr None"

text \<open>\<^verbatim>\<open>score and 'value' in score\<close>: the membership test only runs on a truthy score.\<close>

definition score_has_value :: "pyval \<Rightarrow> error + bool" where
  "score_has_value score = (if truthy score then py_contains ''value'' score else Inr False)"

text \<open>
  The \<^verbatim>\<open>if\<close>/\<^verbatim>\<open>elif\<close> of the loop body for an item of a known category: the score's
  value when there is one, else the tag for the two tag categories, else nothing.
\<close>

definition assign_summary ::
  "summary \<Rightarrow> string \<Rightarrow> pyval \<Rightarrow> pyval \<Rightarrow> pyval \<Rightarrow> error + summary" where
  "assign_summary s key name score tag =
     (case score_has_value score of
        Inl e \<Rightarrow> Inl e
      | Inr True \<Rightarrow>
          (case py_getitem score ''value'' of
             Inl e \<Rightarrow> Inl e
           | Inr v \<Rightarrow> Inr (AList.update key v s))
      | Inr False \<Rightarrow>
          (if name \<in> set [PStr ''Entry point'', PStr ''Red flags'']
           then Inr (AList.update key tag s)
           else Inr s))"

text \<open>
  The body of the loop for one item: the three reads, then the test
  \<^verbatim>\<open>name in category_map\<close>. Every statement that can raise comes before the single
  assignment to the summary, so an exception leaves the summary as it was.
\<close>

definition process_item :: "summary \<Rightarrow> pyval \<Rightarrow> error + summary" where
  "process_item s item =
     (case dict_get item ''name'' (PStr '''') of
        Inl e \<Rightarrow> Inl e
      | Inr name \<Rightarrow>
     (case dict_get item ''score'' (PDict []) of
        Inl e \<Rightarrow> Inl e
      | Inr score \<Rightarrow>
     (case dict_get item ''tag'' (PStr '''') of
        Inl e \<Rightarrow> Inl e
      | Inr tag \<Rightarrow>
     (case category_lookup name of
        Inl e \<Rightarrow> Inl e
      | Inr None \<Rightarrow> Inr s
      | Inr (Some key) \<Rightarrow> assign_summary s key name score tag))))"

text \<open>
  The \<^verbatim>\<open>for\<close> loop over the items: it stops at the first exception and hands it on
  together with the summary as mutated so far.
\<close>

fun process_items :: "summary \<Rightarrow> pyval list \<Rightarrow> error option \<times> summary" where
  "process_items s [] = (None, s)"
| "process_items s (item # items) =
     (case process_item s item of
        Inl e \<Rightarrow> (Some e, s)
      | Inr s' \<Rightarrow> process_items s' items)"

text \<open>The body of the \<^verbatim>\<open>try\<close>: iterate \<^verbatim>\<open>scorecard_data['data']\<close>.\<close>

definition traverse :: "summary \<Rightarrow> pyval \<Rightarrow> error option \<times> summary" where
  "traverse s data_v =
     (case py_iter data_v of
        Inl e \<Rightarrow> (Some e, s)
      | Inr items \<Rightarrow> process_items s items)"

text \<open>
  \<^verbatim>\<open>extract_scorecard_summary_csv\<close>. The guard \<^verbatim>\<open>scorecard_data.get('data')\<close> stands
  before the \<^verbatim>\<open>try\<close>, so its AttributeError on a truthy value that is not a dict
  reaches the caller; both the normal exit of the \<^verbatim>\<open>try\<close> and its handler return the
  summary (the handler's print is not modelled).
\<close>

definition extract_scorecard_summary_csv :: "pyval \<Rightarrow> error + summary" where
  "extract_scorecard_summary_csv scorecard_data =
     (if \<not> truthy scorecard_data then Inr default_summary
      else case dict_get scorecard_data ''data'' PNone of
        Inl e \<Rightarrow> Inl e
      | Inr data_v \<Rightarrow>
          if \<not> truthy data_v then Inr default_summary
          else (case traverse default_summary data_v of
                  (None, s) \<Rightarrow> Inr s
                | (Some e, s) \<Rightarrow> Inr s))"

section \<open>Fetching the scorecards (Screener.py)\<close>

text \<open>
  What the provider does with one GET request is the environment's choice: the request
  fails in transport, or a response arrives with a status and a body that is JSON or not.
  The run is given the provider as a function from the stock id to that outcome.
\<close>

datatype response_body = Malformed | Json pyval

datatype fetch_outcome = Unreachable | Responded nat response_body

fun session_get :: "fetch_outcome \<Rightarrow> error + nat \<times> response_body" where
  "session_get Unreachable = Inl ClientError"
| "session_get (Responded status body) = Inr (status, body)"

fun response_json :: "response_body \<Rightarrow> error + pyval" where
  "response_json Malformed = Inl DecodeError"
| "response_json (Json v) = Inr v"

text \<open>The body of the \<^verbatim>\<open>try\<close> in \<^verbatim>\<open>fetch_scorecard_async\<close>.\<close>

definition fetch_try :: "(string \<Rightarrow> fetch_outcome) \<Rightarrow> string \<Rightarrow> error + string \<times> pyval" where
  "fetch_try api sid =
     (case session_get (api sid) of
        Inl e \<Rightarrow> Inl e
      | Inr (status, body) \<Rightarrow>
          if status = 200
          then (case response_json body of
                  Inl e \<Rightarrow> Inl e
                | Inr scorecard \<Rightarrow> Inr (sid, scorecard))
          else Inr (sid, PNone))"

text \<open>
  \<^verbatim>\<open>fetch_scorecard_async\<close>: the handler \<^verbatim>\<open>except Exception\<close> turns every exception
  of the body into \<^verbatim>\<open>(sid, None)\<close>. The result is still typed as a computation that
  may raise, since that is what \<^verbatim>\<open>asyncio.gather\<close> receives. The diagnostic prints are
  not modelled.
\<close>

definition fetch_scorecard_async ::
  "(string \<Rightarrow> fetch_outcome) \<Rightarrow> string \<Rightarrow> error + string \<times> pyval" where
  "fetch_scorecard_async api sid =
     (case fetch_try api sid of
        Inl e \<Rightarrow> Inr (sid, PNone)
      | Inr r \<Rightarrow> Inr r)"

text \<open>
  \<^verbatim>\<open>await asyncio.gather(*tasks)\<close> without \<^verbatim>\<open>return_exceptions\<close>: the list of all
  results in task order once every task has finished, or the exception of a task that
  raised. The interleaving of the tasks is not modelled: each task's result is fixed by
  the provider's outcome for its id.
\<close>

fun gather :: "(error + 'a) list \<Rightarrow> error + 'a list" where
  "gather [] = Inr []"
| "gather (t # ts) =
     (case t of
        Inl e \<Rightarrow> Inl e
      | Inr r \<Rightarrow> (case gather ts of Inl e \<Rightarrow> Inl e | Inr rs \<Rightarrow> Inr (r # rs)))"

text \<open>The dict comprehension \<^verbatim>\<open>{sid: scorecard for sid, scorecard in results}\<close>.\<close>

definition dict_of_pairs :: "(string \<times> pyval) list \<Rightarrow> (string \<rightharpoonup> pyval)" where
  "dict_of_pairs kvs = foldl (\<lambda>m kv. m(fst kv \<mapsto> snd kv)) Map.empty kvs"

text \<open>\<^verbatim>\<open>scorecard_map.get(sid)\<close>, with \<^verbatim>\<open>None\<close> for a missing key.\<close>

definition map_get :: "(string \<rightharpoonup> pyval) \<Rightarrow> string \<Rightarrow> pyval" where
  "map_get m k = (case m k of None \<Rightarrow> PNone | Some v \<Rightarrow> v)"

section \<open>Building the rows (Screener.py)\<close>

text \<open>
  One screener result \<^verbatim>\<open>stock_data\<close>, as a ScreenerRow: the keys the code indexes
  (\<^verbatim>\<open>sid\<close>, \<^verbatim>\<open>info['name']\<close>, \<^verbatim>\<open>info['ticker']\<close>) are fields, the keys it reads with
  \<^verbatim>\<open>.get\<close> are optional fields, \<open>None\<close> for an absent key. Ratios are JSON
  numbers, which Python reads as an \<^verbatim>\<open>int\<close> or as a \<^verbatim>\<open>float\<close>; the frame of the ranker
  treats the two differently, so a ratio keeps its kind (a float by its exact value).
\<close>

datatype pynum = PyInt int | PyFloat rat

record screener_result =
  sid :: string
  info_name :: string
  info_ticker :: string
  info_sector :: "string option"
  subindustry :: "string option"
  apef :: "pynum option"
  lastPrice :: "pynum option"
  mrktCapf :: "pynum option"
  chMutHldng6M :: "pynum option"
  instown3 :: "pynum option"
  forInstHldng6M :: "pynum option"
  forInstHldng3M :: "pynum option"
  incEbi :: "pynum option"
  pct12mN :: "pynum option"
  estAvg :: "pynum option"

text \<open>
  One entry of \<^verbatim>\<open>export_data\<close>. The key \<^verbatim>\<open>'Top 20 All Columns'\<close> is absent (\<open>None\<close>)
  until the ranker sets it.
\<close>

record stock_entry =
  company_name :: string
  ticker :: string
  sector :: string
  sub_sector :: string
  pe_ratio :: pynum
  last_price :: pynum
  market_cap :: pynum
  mf_holding_change_6m :: pynum
  mf_holding_change_3m :: pynum
  fii_holding_change_6m :: pynum
  fii_holding_change_3m :: pynum
  ebitda :: pynum
  return_vs_nifty_1y :: pynum
  forward_ebitda_growth_1y :: pynum
  valuation_score :: pyval
  performance_score :: pyval
  profitability_score :: pyval
  growth_score :: pyval
  entry_point_score :: pyval
  red_flags_score :: pyval
  top_20_all_columns :: "string option"

record errors =
  scorecard_fetch_errors :: nat
  scorecard_parse_errors :: nat

text \<open>\<^verbatim>\<open>d.get(key, default)\<close> on an optional field, and on the summary dict.\<close>

definition get_or :: "'a option \<Rightarrow> 'a \<Rightarrow> 'a" where
  "get_or v d = (case v of None \<Rightarrow> d | Some x \<Rightarrow> x)"

definition summary_get :: "summary \<Rightarrow> string \<Rightarrow> pyval" where
  "summary_get s k = (case map_of s k of None \<Rightarrow> PStr ''N/A'' | Some v \<Rightarrow> v)"

text \<open>
  The \<^verbatim>\<open>try\<close> around the normalizer in the row loop: no call for a falsy scorecard, and
  an exception of the call counts one parse error and leaves the empty summary.
\<close>

definition scorecard_summary_of :: "pyval \<Rightarrow> errors \<Rightarrow> summary \<times> errors" where
  "scorecard_summary_of scorecard errs =
     (if truthy scorecard
      then (case extract_scorecard_summary_csv scorecard of
              Inr s \<Rightarrow> (s, errs)
            | Inl e \<Rightarrow> ([], errs\<lparr>scorecard_parse_errors := scorecard_parse_errors errs + 1\<rparr>))
      else ([], errs))"

definition make_stock_entry :: "screener_result \<Rightarrow> summary \<Rightarrow> stock_entry" where
  "make_stock_entry stock_data scorecard_summary =
     \<lparr> company_name = info_name stock_data,
       ticker = info_ticker stock_data,
       sector = get_or (info_sector stock_data) ''N/A'',
       sub_sector = get_or (subindustry stock_data) ''N/A'',
       pe_ratio = get_or (apef stock_data) (PyInt 0),
       last_price = get_or (lastPrice stock_data) (PyInt 0),
       market_cap = get_or (mrktCapf stock_data) (PyInt 0),
       mf_holding_change_6m = get_or (chMutHldng6M stock_data) (PyInt 0),
       mf_holding_change_3m = get_or (instown3 stock_data) (PyInt 0),
       fii_holding_change_6m = get_or (forInstHldng6M stock_data) (PyInt 0),
       fii_holding_change_3m = get_or (forInstHldng3M stock_data) (PyInt 0),
       ebitda = get_or (incEbi stock_data) (PyInt 0),
       return_vs_nifty_1y = get_or (pct12mN stock_data) (PyInt 0),
       forward_ebitda_growth_1y = get_or (estAvg stock_data) (PyInt 0),
       valuation_score = summary_get scorecard_summary ''Valuation_Score'',
       performance_score = summary_get scorecard_summary ''Performance_Score'',
       profitability_score = summary_get scorecard_summary ''Profitability_Score'',
       growth_score = summary_get scorecard_summary ''Growth_Score'',
       entry_point_score = summary_get scorecard_summary ''Entry_Point_Score'',
       red_flags_score = summary_get scorecard_summary ''Red_Flags_Score'',
       top_20_all_columns = None \<rparr>"

text \<open>
  The loop \<^verbatim>\<open>for stock_data in data['data']['results']\<close>, with the two mutable
  objects \<^verbatim>\<open>export_data\<close> and \<^verbatim>\<open>errors\<close> passed as state.
\<close>

fun build_rows ::
  "(string \<rightharpoonup> pyval) \<Rightarrow> screener_result list \<Rightarrow> stock_entry list \<times> errors
     \<Rightarrow> stock_entry list \<times> errors" where
  "build_rows scorecard_map [] st = st"
| "build_rows scorecard_map (stock_data # rest) (export_data, errs) =
     (let scorecard = map_get scorecard_map (sid stock_data);
          (scorecard_summary, errs') = scorecard_summary_of scorecard errs;
          stock_entry = make_stock_entry stock_data scorecard_summary
      in build_rows scorecard_map rest (export_data @ [stock_entry], errs'))"

text \<open>
  The first half of \<^verbatim>\<open>process_stock_data_async\<close> (the \<^verbatim>\<open>async with\<close> block up to
  \<^verbatim>\<open>scorecard_map\<close>), on the list \<^verbatim>\<open>data['data']['results']\<close>: one task per result,
  the barrier, and the map from the results of the barrier.
\<close>

definition fetch_all ::
  "(string \<Rightarrow> fetch_outcome) \<Rightarrow> screener_result list \<Rightarrow> error + (string \<rightharpoonup> pyval)" where
  "fetch_all api results =
     (let scorecard_tasks = map (\<lambda>stock_data. fetch_scorecard_async api (sid stock_data)) results
      in case gather scorecard_tasks of
           Inl e \<Rightarrow> Inl e
         | Inr scorecard_results \<Rightarrow> Inr (dict_of_pairs scorecard_results))"

text \<open>\<^verbatim>\<open>process_stock_data_async\<close>: the counters, the fetches, then the rows.\<close>

definition process_stock_data_async ::
  "(string \<Rightarrow> fetch_outcome) \<Rightarrow> screener_result list \<Rightarrow> error + stock_entry list \<times> errors" where
  "process_stock_data_async api results =
     (let errs = \<lparr>scorecard_fetch_errors = 0, scorecard_parse_errors = 0\<rparr>
      in case fetch_all api results of
           Inl e \<Rightarrow> Inl e
         | Inr scorecard_map \<Rightarrow> Inr (build_rows scorecard_map results ([], errs)))"

section \<open>Numbers in a pandas frame\<close>

text \<open>
  \<^verbatim>\<open>pd.DataFrame(export_data)\<close> gives every column one type. For a column of Python
  numbers pandas decides as follows: an int above \<open>2\<^sup>6\<^sup>4 - 1\<close> or below \<open>-2\<^sup>6\<^sup>3\<close>, or an
  int above \<open>2\<^sup>6\<^sup>3 - 1\<close> together with a negative int, leaves the column an object column
  of the Python values; otherwise a column that holds a float is a float64 column, and a
  column of ints is an int64 column, or a uint64 column when an int is above
  \<open>2\<^sup>6\<^sup>3 - 1\<close>.
\<close>

datatype dtype = Int64 | UInt64 | Float64 | Object

fun num_value :: "pynum \<Rightarrow> rat" where
  "num_value (PyInt n) = of_int n"
| "num_value (PyFloat r) = r"

definition column_dtype :: "pynum list \<Rightarrow> dtype" where
  "column_dtype xs =
     (let out_of_range =
            (\<exists>x \<in> set xs. case x of PyInt n \<Rightarrow> 2 ^ 64 - 1 < n \<or> n < - (2 ^ 63) | PyFloat r \<Rightarrow> False);
          unsigned =
            (\<exists>x \<in> set xs. case x of PyInt n \<Rightarrow> 2 ^ 63 - 1 < n | PyFloat r \<Rightarrow> False);
          negative =
            (\<exists>x \<in> set xs. case x of PyInt n \<Rightarrow> n < 0 | PyFloat r \<Rightarrow> False);
          has_float =
            (\<exists>x \<in> set xs. case x of PyInt n \<Rightarrow> False | PyFloat r \<Rightarrow> True)
      in if out_of_range \<or> (unsigned \<and> negative) then Object
         else if has_float then Float64
         else if unsigned then UInt64
         else Int64)"

text \<open>
  In a float64 column an int is stored as the float nearest to it, ties going to the even
  mantissa. Below \<open>2\<^sup>5\<^sup>3\<close> that is the int itself; from there on the floats are
  \<open>2\<close>, \<open>4\<close>, ... apart (\<open>float64_ulp\<close>, for the ints below \<open>2\<^sup>6\<^sup>4\<close> that pandas
  converts).
\<close>

definition float64_ulp :: "nat \<Rightarrow> nat" where
  "float64_ulp m =
     2 ^ length (filter (\<lambda>k. 2 ^ k \<le> m) [53, 54, 55, 56, 57, 58, 59, 60, 61, 62, 63])"

definition round_half_even :: "nat \<Rightarrow> nat \<Rightarrow> nat" where
  "round_half_even m u =
     (let q = m div u; r = m mod u
      in if 2 * r < u \<or> (2 * r = u \<and> even q) then q * u else (q + 1) * u)"

definition float64_of_int :: "int \<Rightarrow> rat" where
  "float64_of_int n =
     (if 0 \<le> n then of_nat (round_half_even (nat n) (float64_ulp (nat n)))
      else - of_nat (round_half_even (nat (- n)) (float64_ulp (nat (- n)))))"

fun astype :: "dtype \<Rightarrow> pynum \<Rightarrow> pynum" where
  "astype Float64 (PyInt n) = PyFloat (float64_of_int n)"
| "astype d x = x"

text \<open>The value of a column as the frame stores it.\<close>

definition stored :: "pynum list \<Rightarrow> pynum \<Rightarrow> pynum" where
  "stored column x = astype (column_dtype column) x"

section \<open>The top-20 ranker (Screener.py)\<close>

text \<open>
  \<^verbatim>\<open>df = pd.DataFrame(export_data)\<close>: the rows with every numeric column as the frame
  stores it. The text columns are object columns and keep their strings. The six
  scorecard columns are kept as they are: that is what pandas does with a column that
  holds a string such as \<^verbatim>\<open>'N/A'\<close>; its typing of a scorecard column without a string
  is not modelled, and no statement below is about these six fields.
\<close>

definition frame_row :: "stock_entry list \<Rightarrow> stock_entry \<Rightarrow> stock_entry" where
  "frame_row export_data row = row
     \<lparr> pe_ratio := stored (map pe_ratio export_data) (pe_ratio row),
       last_price := stored (map last_price export_data) (last_price row),
       market_cap := stored (map market_cap export_data) (market_cap row),
       mf_holding_change_6m :=
         stored (map mf_holding_change_6m export_data) (mf_holding_change_6m row),
       mf_holding_change_3m :=
         stored (map mf_holding_change_3m export_data) (mf_holding_change_3m row),
       fii_holding_change_6m :=
         stored (map fii_holding_change_6m export_data) (fii_holding_change_6m row),
       fii_holding_change_3m :=
         stored (map fii_holding_change_3m export_data) (fii_holding_change_3m row),
       ebitda := stored (map ebitda export_data) (ebitda row),
       return_vs_nifty_1y := stored (map return_vs_nifty_1y export_data) (return_vs_nifty_1y row),
       forward_ebitda_growth_1y :=
         stored (map forward_ebitda_growth_1y export_data) (forward_ebitda_growth_1y row) \<rparr>"

definition to_frame :: "stock_entry list \<Rightarrow> stock_entry list" where
  "to_frame export_data = map (frame_row export_data) export_data"

text \<open>The list \<^verbatim>\<open>holding_columns\<close>, and the value of a row in one of these columns.\<close>

datatype holding_column = MF_6M | MF_3M | FII_6M | FII_3M

definition holding_columns :: "holding_column list" where
  "holding_columns = [MF_6M, MF_3M, FII_6M, FII_3M]"

fun column_value :: "holding_column \<Rightarrow> stock_entry \<Rightarrow> pynum" where
  "column_value MF_6M row = mf_holding_change_6m row"
| "column_value MF_3M row = mf_holding_change_3m row"
| "column_value FII_6M row = fii_holding_change_6m row"
| "column_value FII_3M row = fii_holding_change_3m row"

text \<open>
  \<^verbatim>\<open>df.nlargest(n, column)\<close> with the default \<^verbatim>\<open>keep='first'\<close>: the rows in descending
  order of the column, of equal values the one that comes first in the frame first, cut
  to the first \<open>n\<close>. (On a frame of at most \<open>n\<close> rows pandas leaves the order of
  equal values open; the values are the same.) It raises TypeError on an object column.
\<close>

fun insert_desc :: "('a \<Rightarrow> rat) \<Rightarrow> 'a \<Rightarrow> 'a list \<Rightarrow> 'a list" where
  "insert_desc f x [] = [x]"
| "insert_desc f x (y # ys) =
     (if f y \<le> f x then x # y # ys else y # insert_desc f x ys)"

definition sort_desc :: "('a \<Rightarrow> rat) \<Rightarrow> 'a list \<Rightarrow> 'a list" where
  "sort_desc f xs = foldr (insert_desc f) xs []"

definition nlargest :: "nat \<Rightarrow> holding_column \<Rightarrow> stock_entry list \<Rightarrow> stock_entry list" where
  "nlargest n column df = take n (sort_desc (\<lambda>row. num_value (column_value column row)) df)"

text \<open>
  \<^verbatim>\<open>top_20_results[column]\<close>, the records of the three selected columns, and
  \<^verbatim>\<open>top_20_per_column[column]\<close>, the set of the values of the column among them
  (Python compares and hashes numbers by value).
\<close>

definition top_20_records ::
  "stock_entry list \<Rightarrow> holding_column \<Rightarrow> (string \<times> string \<times> pynum) list" where
  "top_20_records df column =
     map (\<lambda>row. (company_name row, ticker row, column_value column row)) (nlargest 20 column df)"

definition top_20_per_column :: "stock_entry list \<Rightarrow> holding_column \<Rightarrow> rat set" where
  "top_20_per_column df column =
     set (map (\<lambda>row. num_value (column_value column row)) (nlargest 20 column df))"

text \<open>The \<^verbatim>\<open>lambda row\<close> that \<^verbatim>\<open>df.apply\<close> runs on every row of the frame.\<close>

definition top_20_flag :: "stock_entry list \<Rightarrow> stock_entry \<Rightarrow> string" where
  "top_20_flag df row =
     (if num_value (mf_holding_change_6m row) \<in> top_20_per_column df MF_6M \<and>
         num_value (mf_holding_change_3m row) \<in> top_20_per_column df MF_3M \<and>
         num_value (fii_holding_change_6m row) \<in> top_20_per_column df FII_6M \<and>
         num_value (fii_holding_change_3m row) \<in> top_20_per_column df FII_3M
      then ''Yes'' else ''No'')"

text \<open>
  \<^verbatim>\<open>identify_top_holding_changes\<close>. A frame built from the empty list has no columns,
  so the first \<^verbatim>\<open>df.nlargest(20, column)\<close> raises KeyError; on an object column it
  raises TypeError; otherwise every row of the frame gets the new column and
  \<^verbatim>\<open>df.to_dict('records')\<close> gives the rows back in the frame's order, with the numbers
  as the frame stores them. The selection \<^verbatim>\<open>all_top_20_stocks\<close> only feeds the prints,
  which are not modelled.
\<close>

definition identify_top_holding_changes ::
  "stock_entry list \<Rightarrow>
     error + stock_entry list \<times> (holding_column \<times> (string \<times> string \<times> pynum) list) list" where
  "identify_top_holding_changes export_data =
     (if export_data = [] then Inl KeyError
      else
        let df = to_frame export_data
        in if \<exists>column \<in> set holding_columns.
                column_dtype (map (column_value column) export_data) = Object
           then Inl TypeError
           else Inr (map (\<lambda>row. row\<lparr>top_20_all_columns := Some (top_20_flag df row)\<rparr>) df,
                     map (\<lambda>column. (column, top_20_records df column)) holding_columns))"

section \<open>The run (Screener.py, main)\<close>

text \<open>
  What \<^verbatim>\<open>main\<close> prints at the end: the number of rows and the two error counts.
  \<^verbatim>\<open>fetch_screener_data\<close> is the environment's: it hands over the results, or nothing.
  Writing the file is not modelled.
\<close>

record report =
  total_stocks :: nat
  fetch_errors_reported :: nat
  parse_errors_reported :: nat

definition main ::
  "screener_result list option \<Rightarrow> (string \<Rightarrow> fetch_outcome) \<Rightarrow> error + report option" where
  "main data api =
     (case data of
        None \<Rightarrow> Inr None
      | Some results \<Rightarrow>
          (case process_stock_data_async api results of
             Inl e \<Rightarrow> Inl e
           | Inr (export_data, errs) \<Rightarrow>
               (case identify_top_holding_changes export_data of
                  Inl e \<Rightarrow> Inl e
                | Inr (export_data', top_holding_changes) \<Rightarrow>
                    Inr (Some \<lparr> total_stocks = length export_data',
                                fetch_errors_reported = scorecard_fetch_errors errs,
                                parse_errors_reported = scorecard_parse_errors errs \<rparr>))))"

section \<open>Notions of the specification and sample inputs\<close>

text \<open>
  A category is absent from a document when no item that the traversal visits carries
  its name.
\<close>

definition category_absent :: "string \<Rightarrow> pyval \<Rightarrow> bool" where
  "category_absent c doc =
     (case dict_get doc ''data'' PNone of
        Inl e \<Rightarrow> True
      | Inr data_v \<Rightarrow>
          (case py_iter data_v of
             Inl e \<Rightarrow> True
           | Inr items \<Rightarrow> \<forall>item \<in> set items. dict_get item ''name'' (PStr '''') \<noteq> Inr (PStr c)))"

text \<open>
  A retrieval has failed when the request did not get through, the status is not 200, or
  the body is not JSON.
\<close>

definition fetch_failed :: "fetch_outcome \<Rightarrow> bool" where
  "fetch_failed outcome =
     (case outcome of
        Unreachable \<Rightarrow> True
      | Responded status body \<Rightarrow> status \<noteq> 200 \<or> body = Malformed)"

text \<open>Sample data: screener results, a provider whose third stock is unreachable, a
  scorecard map that lacks one of three stocks, and rows for the ranker.\<close>

definition stock_with_sid :: "string \<Rightarrow> screener_result" where
  "stock_with_sid s =
     \<lparr> sid = s, info_name = s, info_ticker = s, info_sector = None, subindustry = None,
       apef = None, lastPrice = None, mrktCapf = None, chMutHldng6M = Some (PyFloat 1),
       instown3 = Some (PyFloat 1), forInstHldng6M = Some (PyFloat 1),
       forInstHldng3M = Some (PyFloat 1),
       incEbi = None, pct12mN = None, estAvg = None \<rparr>"

definition third_fails :: "string \<Rightarrow> fetch_outcome" where
  "third_fails s = (if s = ''S3'' then Unreachable else Responded 200 (Json (PDict [(''data'', PList [])])))"

definition two_of_three :: "string \<rightharpoonup> pyval" where
  "two_of_three =
     [''S1'' \<mapsto> PDict [(''data'', PList [PDict [(''name'', PStr ''Growth''),
                                                  (''score'', PDict [(''value'', PNum 8)])]])],
      ''S3'' \<mapsto> PDict [(''data'', PList [])]]"

definition holding_row :: "pynum \<Rightarrow> stock_entry" where
  "holding_row v =
     \<lparr> company_name = ''Co'', ticker = ''CO'', sector = ''N/A'', sub_sector = ''N/A'',
       pe_ratio = PyInt 0, last_price = PyInt 0, market_cap = PyInt 0,
       mf_holding_change_6m = v, mf_holding_change_3m = v,
       fii_holding_change_6m = v, fii_holding_change_3m = v,
       ebitda = PyInt 0, return_vs_nifty_1y = PyInt 0, forward_ebitda_growth_1y = PyInt 0,
       valuation_score = PStr ''N/A'', performance_score = PStr ''N/A'',
       profitability_score = PStr ''N/A'', growth_score = PStr ''N/A'',
       entry_point_score = PStr ''N/A'', red_flags_score = PStr ''N/A'',
       top_20_all_columns = None \<rparr>"


text \<open>
  The ten numeric columns and the six scorecard columns of a row, by name.
\<close>

datatype numeric_column =
    PE_Ratio | Last_Price | Market_Cap | MF_Holding_6M | MF_Holding_3M
  | FII_Holding_6M | FII_Holding_3M | EBITDA | Return_vs_Nifty_1Y | Forward_EBITDA_Growth_1Y


fun number_of :: "numeric_column \<Rightarrow> stock_entry \<Rightarrow> pynum" where
  "number_of PE_Ratio row = pe_ratio row"
| "number_of Last_Price row = last_price row"
| "number_of Market_Cap row = market_cap row"
| "number_of MF_Holding_6M row = mf_holding_change_6m row"
| "number_of MF_Holding_3M row = mf_holding_change_3m row"
| "number_of FII_Holding_6M row = fii_holding_change_6m row"
| "number_of FII_Holding_3M row = fii_holding_change_3m row"
| "number_of EBITDA row = ebitda row"
| "number_of Return_vs_Nifty_1Y row = return_vs_nifty_1y row"
| "number_of Forward_EBITDA_Growth_1Y row = forward_ebitda_growth_1y row"

datatype score_column = Valuation | Performance | Profitability | Growth | Entry_Point | Red_Flags


fun score_of :: "score_column \<Rightarrow> stock_entry \<Rightarrow> pyval" where
  "score_of Valuation row = valuation_score row"
| "score_of Performance row = performance_score row"
| "score_of Profitability row = profitability_score row"
| "score_of Growth row = growth_score row"
| "score_of Entry_Point row = entry_point_score row"
| "score_of Red_Flags row = red_flags_score row"



definition object_holding_column :: "stock_entry list \<Rightarrow> bool" where
  "object_holding_column export_data =
     (\<exists>column \<in> set holding_columns.
        column_dtype (map (column_value column) export_data) = Object)"


section \<open>Properties of the normalizer\<close>

lemma category_lookup_key:
  "category_lookup name = Inr (Some key) \<Longrightarrow> key \<in> set (map fst default_summary)"
  by (cases name) (auto simp: category_map_def default_summary_def split: if_splits)

lemma update_keeps_keys:
  "key \<in> set (map fst s) \<Longrightarrow> map fst (AList.update key v s) = map fst s"
  by (simp add: update_keys)

lemma assign_summary_keys:
  "assign_summary s key name score tag = Inr s' \<Longrightarrow> key \<in> set (map fst s)
     \<Longrightarrow> map fst s' = map fst s"
proof -
  assume k: "key \<in> set (map fst s)"
  have upd: "map fst (AList.update key v s) = map fst s" for v
    using k by (simp only: update_keys if_True)
  assume "assign_summary s key name score tag = Inr s'"
  then show ?thesis
    unfolding assign_summary_def
    by (auto simp: upd split: sum.splits bool.splits if_splits)
qed

lemma process_item_keys:
  assumes "process_item s item = Inr s'" and "map fst s = map fst default_summary"
  shows "map fst s' = map fst default_summary"
  using assms unfolding process_item_def
  by (auto split: sum.splits option.splits dest!: category_lookup_key assign_summary_keys)

lemma process_items_keys:
  "map fst s = map fst default_summary \<Longrightarrow>
     map fst (snd (process_items s items)) = map fst default_summary"
proof (induction items arbitrary: s)
  case Nil
  then show ?case by simp
next
  case (Cons item items)
  show ?case
  proof (cases "process_item s item")
    case (Inl e)
    with Cons.prems show ?thesis by simp
  next
    case (Inr s')
    with Cons.prems have "map fst s' = map fst default_summary"
      by (simp add: process_item_keys)
    with Cons.IH Inr show ?thesis by simp
  qed
qed

lemma traverse_keys:
  "map fst s = map fst default_summary \<Longrightarrow>
     map fst (snd (traverse s data_v)) = map fst default_summary"
  unfolding traverse_def by (auto split: sum.splits simp: process_items_keys)

lemma extract_keys:
  "extract_scorecard_summary_csv doc = Inr s \<Longrightarrow> map fst s = map fst default_summary"
  unfolding extract_scorecard_summary_csv_def
  using traverse_keys[of default_summary]
  by (auto split: if_splits sum.splits prod.splits option.splits) (metis snd_conv)+

lemma category_map_inj:
  "map_of category_map m = Some key \<Longrightarrow> map_of category_map c = Some k \<Longrightarrow> m \<noteq> c
     \<Longrightarrow> key \<noteq> k"
  by (auto simp: category_map_def split: if_splits)

lemma assign_summary_other:
  "assign_summary s key name score tag = Inr s' \<Longrightarrow> key \<noteq> k \<Longrightarrow> map_of s' k = map_of s k"
  unfolding assign_summary_def
  by (auto simp: update_conv' split: sum.splits bool.splits if_splits)

lemma process_item_other:
  assumes "process_item s item = Inr s'"
    and "dict_get item ''name'' (PStr '''') \<noteq> Inr (PStr c)"
    and "map_of category_map c = Some k"
  shows "map_of s' k = map_of s k"
proof -
  obtain name where n: "dict_get item ''name'' (PStr '''') = Inr name"
    using assms(1) unfolding process_item_def by (auto split: sum.splits)
  show ?thesis
  proof (cases "category_lookup name")
    case (Inl e)
    with assms(1) n show ?thesis
      unfolding process_item_def by (auto split: sum.splits)
  next
    case (Inr r)
    show ?thesis
    proof (cases r)
      case None
      with assms(1) n Inr show ?thesis
        unfolding process_item_def by (auto split: sum.splits)
    next
      case (Some key)
      from Inr Some obtain m where m: "name = PStr m" "map_of category_map m = Some key"
        by (cases name) auto
      from m n assms(2) have "m \<noteq> c" by auto
      have "key \<noteq> k"
        by (rule category_map_inj[OF m(2) assms(3) \<open>m \<noteq> c\<close>])
      moreover from assms(1) n Inr Some obtain score tag
        where "assign_summary s key name score tag = Inr s'"
        unfolding process_item_def by (auto split: sum.splits)
      ultimately show ?thesis by (rule assign_summary_other[rotated])
    qed
  qed
qed

lemma process_items_other:
  assumes "\<forall>item \<in> set items. dict_get item ''name'' (PStr '''') \<noteq> Inr (PStr c)"
    and "map_of category_map c = Some k"
  shows "map_of (snd (process_items s items)) k = map_of s k"
  using assms(1)
proof (induction items arbitrary: s)
  case Nil
  then show ?case by simp
next
  case (Cons item items)
  show ?case
  proof (cases "process_item s item")
    case (Inl e)
    then show ?thesis by simp
  next
    case (Inr s')
    have "map_of s' k = map_of s k"
      using Inr Cons.prems assms(2) by (auto intro: process_item_other)
    moreover have "map_of (snd (process_items s' items)) k = map_of s' k"
      using Cons.IH Cons.prems by simp
    ultimately show ?thesis using Inr by simp
  qed
qed

lemma default_summary_value:
  "map_of category_map c = Some k \<Longrightarrow> map_of default_summary k = Some (PStr ''N/A'')"
  by (auto simp: category_map_def default_summary_def split: if_splits)

lemma extract_returns:
  assumes "\<not> truthy doc \<or> (\<exists>kvs. doc = PDict kvs)"
  shows "\<exists>s. extract_scorecard_summary_csv doc = Inr s"
  using assms unfolding extract_scorecard_summary_csv_def
  by (auto split: sum.splits prod.splits option.splits)

text \<open>The normalizer raises exactly on the truthy values that are not dicts.\<close>

lemma extract_raises_iff:
  "(\<exists>e. extract_scorecard_summary_csv doc = Inl e) \<longleftrightarrow>
     truthy doc \<and> (\<forall>kvs. doc \<noteq> PDict kvs)"
  unfolding extract_scorecard_summary_csv_def
  by (cases doc) (auto split: sum.splits prod.splits option.splits)

lemma extract_absent:
  assumes "extract_scorecard_summary_csv doc = Inr s"
    and "map_of category_map c = Some k" and "category_absent c doc"
  shows "map_of s k = Some (PStr ''N/A'')"
proof -
  note d = default_summary_value[OF assms(2)]
  show ?thesis
  proof (cases "truthy doc")
    case False
    with assms(1) d show ?thesis by (simp add: extract_scorecard_summary_csv_def)
  next
    case True
    then obtain data_v where g: "dict_get doc ''data'' PNone = Inr data_v"
      using assms(1) by (auto simp: extract_scorecard_summary_csv_def split: sum.splits)
    show ?thesis
    proof (cases "truthy data_v")
      case False
      with assms(1) True g d show ?thesis by (simp add: extract_scorecard_summary_csv_def)
    next
      case tv: True
      have s: "s = snd (traverse default_summary data_v)"
        using assms(1) True g tv
        by (auto simp: extract_scorecard_summary_csv_def split: prod.splits option.splits)
      show ?thesis
      proof (cases "py_iter data_v")
        case (Inl e)
        with s d show ?thesis by (simp add: traverse_def)
      next
        case (Inr items)
        with assms(3) g have "\<forall>item \<in> set items. dict_get item ''name'' (PStr '''') \<noteq> Inr (PStr c)"
          by (simp add: category_absent_def)
        from process_items_other[OF this assms(2)] s Inr d show ?thesis
          by (simp add: traverse_def)
      qed
    qed
  qed
qed

text \<open>
  C2, as amended. For every input that is falsy (\<^verbatim>\<open>None\<close>, an empty document) or a dict,
  the normalizer returns a summary; its keys are exactly the six known keys, in the
  order of the default summary; and every key whose category is absent from the document
  holds \<^verbatim>\<open>'N/A'\<close>.
\<close>
theorem normalize_six_keys:
  assumes "\<not> truthy doc \<or> (\<exists>kvs. doc = PDict kvs)"
  shows "\<exists>s. extract_scorecard_summary_csv doc = Inr s \<and>
           map fst s = [''Performance_Score'', ''Valuation_Score'', ''Growth_Score'',
                        ''Profitability_Score'', ''Entry_Point_Score'', ''Red_Flags_Score''] \<and>
           (\<forall>c k. map_of category_map c = Some k \<longrightarrow> category_absent c doc
              \<longrightarrow> map_of s k = Some (PStr ''N/A''))"
proof -
  from extract_returns[OF assms] obtain s where s: "extract_scorecard_summary_csv doc = Inr s" ..
  have "map fst s = map fst default_summary" using s by (rule extract_keys)
  then have keys: "map fst s = [''Performance_Score'', ''Valuation_Score'', ''Growth_Score'',
                        ''Profitability_Score'', ''Entry_Point_Score'', ''Red_Flags_Score'']"
    by (simp add: default_summary_def)
  have absent: "\<forall>c k. map_of category_map c = Some k \<longrightarrow> category_absent c doc
              \<longrightarrow> map_of s k = Some (PStr ''N/A'')"
    using extract_absent[OF s] by (intro allI impI)
  show ?thesis
    by (intro exI conjI) (rule s, rule keys, rule absent)
qed

text \<open>
  C2, as stated, says that the normalizer raises on no input. The guard
  \<^verbatim>\<open>scorecard_data.get('data')\<close> is outside the \<^verbatim>\<open>try\<close>: on the JSON array \<^verbatim>\<open>[1]\<close> it
  raises AttributeError, which the row loop of Screener.py catches and counts.
\<close>
theorem normalize_raises_on_list:
  "extract_scorecard_summary_csv (PList [PNum 1]) = Inl AttributeError"
  by (simp add: extract_scorecard_summary_csv_def)

text \<open>The statement at a document that only has a Performance item.\<close>
theorem normalize_six_keys_witness:
  "\<exists>s. extract_scorecard_summary_csv
          (PDict [(''data'', PList [PDict [(''name'', PStr ''Performance''),
                                           (''score'', PDict [(''value'', PNum 7)])]])]) = Inr s \<and>
       map fst s = [''Performance_Score'', ''Valuation_Score'', ''Growth_Score'',
                    ''Profitability_Score'', ''Entry_Point_Score'', ''Red_Flags_Score''] \<and>
       map_of s ''Growth_Score'' = Some (PStr ''N/A'')"
proof -
  let ?doc = "PDict [(''data'', PList [PDict [(''name'', PStr ''Performance''),
                                              (''score'', PDict [(''value'', PNum 7)])]])]"
  have h: "\<not> truthy ?doc \<or> (\<exists>kvs. ?doc = PDict kvs)" by simp
  have c: "map_of category_map ''Growth'' = Some ''Growth_Score''"
    by (simp add: category_map_def)
  have a: "category_absent ''Growth'' ?doc"
    by (simp add: category_absent_def)
  from normalize_six_keys[OF h] obtain s where
    s: "extract_scorecard_summary_csv ?doc = Inr s"
    and k: "map fst s = [''Performance_Score'', ''Valuation_Score'', ''Growth_Score'',
                    ''Profitability_Score'', ''Entry_Point_Score'', ''Red_Flags_Score'']"
    and n: "\<forall>c k. map_of category_map c = Some k \<longrightarrow> category_absent c ?doc
              \<longrightarrow> map_of s k = Some (PStr ''N/A'')"
    by (elim exE conjE)
  from n c a have "map_of s ''Growth_Score'' = Some (PStr ''N/A'')"
    by (elim allE impE)
  with s k show ?thesis by (intro exI conjI)
qed

lemma process_items_raise:
  "process_items s0 items = (Some e, s) \<Longrightarrow>
     \<exists>pre bad post. items = pre @ bad # post \<and> process_items s0 pre = (None, s) \<and>
        process_item s bad = Inl e"
proof (induction items arbitrary: s0)
  case Nil
  then show ?case by simp
next
  case (Cons item items)
  show ?case
  proof (cases "process_item s0 item")
    case (Inl e')
    with Cons.prems have "e' = e" "s0 = s" by simp_all
    with Inl have "item # items = [] @ item # items \<and> process_items s0 [] = (None, s) \<and>
        process_item s item = Inl e" by simp
    then show ?thesis by blast
  next
    case (Inr s')
    with Cons.prems have "process_items s' items = (Some e, s)" by simp
    from Cons.IH[OF this] obtain pre bad post where
      p: "items = pre @ bad # post" "process_items s' pre = (None, s)" "process_item s bad = Inl e"
      by blast
    from p Inr have "item # items = (item # pre) @ bad # post \<and>
        process_items s0 (item # pre) = (None, s) \<and> process_item s bad = Inl e" by simp
    then show ?thesis by blast
  qed
qed

text \<open>
  C3. When the traversal of a document's \<^verbatim>\<open>data\<close> raises, the normalizer returns the
  summary as it stood at the raise: all six keys are there, and when \<^verbatim>\<open>data\<close> is
  iterable the summary is the one built from the items before the failing one, starting
  from the defaults. No error reaches the caller.
\<close>
theorem traversal_exception_caught:
  assumes "dict_get doc ''data'' PNone = Inr data_v" and "truthy data_v"
    and "traverse default_summary data_v = (Some e, s)"
  shows "extract_scorecard_summary_csv doc = Inr s \<and>
         map fst s = map fst default_summary \<and>
         (\<forall>items. py_iter data_v = Inr items \<longrightarrow>
            (\<exists>pre bad post. items = pre @ bad # post \<and>
               process_items default_summary pre = (None, s) \<and>
               process_item s bad = Inl e))"
proof (intro conjI allI impI)
  from assms(1) obtain kvs where d: "doc = PDict kvs" by (cases doc) auto
  with assms(1,2) have "kvs \<noteq> []" by (cases kvs) auto
  with d have "truthy doc" by simp
  with assms show r: "extract_scorecard_summary_csv doc = Inr s"
    by (simp add: extract_scorecard_summary_csv_def)
  show "map fst s = map fst default_summary" using r by (rule extract_keys)
next
  fix items assume "py_iter data_v = Inr items"
  with assms(3) have "process_items default_summary items = (Some e, s)"
    by (simp add: traverse_def)
  then show "\<exists>pre bad post. items = pre @ bad # post \<and>
               process_items default_summary pre = (None, s) \<and>
               process_item s bad = Inl e"
    by (rule process_items_raise)
qed

lemmas norm_defs = extract_scorecard_summary_csv_def traverse_def process_item_def
  assign_summary_def score_has_value_def category_map_def default_summary_def

text \<open>A list whose second item is a number: the first item counts, the third is never seen.\<close>
theorem traversal_exception_caught_witness:
  "extract_scorecard_summary_csv
     (PDict [(''data'', PList [PDict [(''name'', PStr ''Performance''),
                                      (''score'', PDict [(''value'', PNum 7)])],
                               PNum 3,
                               PDict [(''name'', PStr ''Growth''),
                                      (''score'', PDict [(''value'', PNum 5)])]])])
   = Inr [(''Performance_Score'', PNum 7), (''Valuation_Score'', PStr ''N/A''),
          (''Growth_Score'', PStr ''N/A''), (''Profitability_Score'', PStr ''N/A''),
          (''Entry_Point_Score'', PStr ''N/A''), (''Red_Flags_Score'', PStr ''N/A'')]"
proof -
  let ?data = "PList [PDict [(''name'', PStr ''Performance''),
                                      (''score'', PDict [(''value'', PNum 7)])],
                               PNum 3,
                               PDict [(''name'', PStr ''Growth''),
                                      (''score'', PDict [(''value'', PNum 5)])]]"
  let ?s = "[(''Performance_Score'', PNum 7), (''Valuation_Score'', PStr ''N/A''),
          (''Growth_Score'', PStr ''N/A''), (''Profitability_Score'', PStr ''N/A''),
          (''Entry_Point_Score'', PStr ''N/A''), (''Red_Flags_Score'', PStr ''N/A'')]"
  have 1: "dict_get (PDict [(''data'', ?data)]) ''data'' PNone = Inr ?data" by simp
  have 2: "truthy ?data" by simp
  have 3: "traverse default_summary ?data = (Some AttributeError, ?s)"
    by (simp add: norm_defs)
  from traversal_exception_caught[OF 1 2 3] show ?thesis by (elim conjE)
qed

text \<open>
  C1 says that an item with no score and no tag leaves the summary value of its
  category at \<^verbatim>\<open>'N/A'\<close>, also for Entry point and Red flags. The code reads the tag with
  the default \<^verbatim>\<open>''\<close> and assigns it without a test: at the document
  \<^verbatim>\<open>{"data": [{"name": "Entry point"}]}\<close> the value becomes the empty string.
\<close>
theorem entry_point_without_tag:
  "extract_scorecard_summary_csv (PDict [(''data'', PList [PDict [(''name'', PStr ''Entry point'')]])])
   = Inr [(''Performance_Score'', PStr ''N/A''), (''Valuation_Score'', PStr ''N/A''),
          (''Growth_Score'', PStr ''N/A''), (''Profitability_Score'', PStr ''N/A''),
          (''Entry_Point_Score'', PStr ''''), (''Red_Flags_Score'', PStr ''N/A'')]"
  by (simp add: norm_defs)

text \<open>For the other four categories an item without a score value assigns nothing.\<close>
lemma score_only_category_keeps_summary:
  assumes "score_has_value score = Inr False"
    and "name \<noteq> PStr ''Entry point''" and "name \<noteq> PStr ''Red flags''"
  shows "assign_summary s key name score tag = Inr s"
  using assms by (simp add: assign_summary_def)

section \<open>Properties of the fetcher and of the error counts\<close>

lemma fetch_scorecard_async_result:
  "fetch_scorecard_async api s =
     Inr (s, case api s of
               Unreachable \<Rightarrow> PNone
             | Responded status body \<Rightarrow>
                 if status = 200 then (case body of Malformed \<Rightarrow> PNone | Json v \<Rightarrow> v) else PNone)"
  by (cases "api s"; simp add: fetch_scorecard_async_def fetch_try_def split: response_body.splits)

lemma gather_all_returned: "gather (map (\<lambda>x. Inr (f x)) xs) = Inr (map f xs)"
  by (induction xs) simp_all

lemma dict_of_pairs_foldl:
  "foldl (\<lambda>m kv. m(fst kv \<mapsto> snd kv)) m0 (map (\<lambda>k. (k, g k)) ks) =
     (\<lambda>k. if k \<in> set ks then Some (g k) else m0 k)"
  by (induction ks arbitrary: m0) (auto simp: fun_eq_iff)

lemma dict_of_pairs_map:
  "dict_of_pairs (map (\<lambda>k. (k, g k)) ks) = (\<lambda>k. if k \<in> set ks then Some (g k) else None)"
  unfolding dict_of_pairs_def by (rule dict_of_pairs_foldl)

lemma build_rows_length:
  "length (fst (build_rows m rs (acc, errs))) = length acc + length rs"
proof (induction rs arbitrary: acc errs)
  case Nil
  then show ?case by simp
next
  case (Cons stock_data rest)
  obtain summ errs' where s: "scorecard_summary_of (map_get m (sid stock_data)) errs = (summ, errs')"
    by (cases "scorecard_summary_of (map_get m (sid stock_data)) errs")
  with Cons.IH[of "acc @ [make_stock_entry stock_data summ]" errs'] show ?case by simp
qed

lemma fetch_all_result:
  "fetch_all api results =
     Inr (\<lambda>k. if k \<in> set (map sid results)
              then Some (case api k of
                           Unreachable \<Rightarrow> PNone
                         | Responded status body \<Rightarrow>
                             if status = 200
                             then (case body of Malformed \<Rightarrow> PNone | Json v \<Rightarrow> v)
                             else PNone)
              else None)"
proof -
  let ?g = "\<lambda>s. case api s of
               Unreachable \<Rightarrow> PNone
             | Responded status body \<Rightarrow>
                 if status = 200 then (case body of Malformed \<Rightarrow> PNone | Json v \<Rightarrow> v) else PNone"
  have "map (\<lambda>stock_data. fetch_scorecard_async api (sid stock_data)) results =
        map (\<lambda>s. Inr (s, ?g s)) (map sid results)"
    by (simp add: fetch_scorecard_async_result)
  then have "gather (map (\<lambda>stock_data. fetch_scorecard_async api (sid stock_data)) results) =
        Inr (map (\<lambda>s. (s, ?g s)) (map sid results))"
    by (simp only: gather_all_returned)
  then have g: "gather (map (\<lambda>stock_data. fetch_scorecard_async api (sid stock_data)) results) =
        Inr (map (\<lambda>k. (k, ?g k)) (map sid results))" .
  show ?thesis
    unfolding fetch_all_def Let_def g sum.case dict_of_pairs_map ..
qed

text \<open>
  C4. For every provider and every list of screener results, the fetch of all
  scorecards returns a map (no retrieval's failure aborts it, and none is left out): its
  keys are exactly the ids of the results; an id whose retrieval failed (transport error,
  status other than 200, body that is not JSON) is mapped to \<^verbatim>\<open>None\<close>, and an id
  answered with status 200 and a JSON body is mapped to that document. It is from this
  map that \<^verbatim>\<open>process_stock_data_async\<close> builds its rows.
\<close>

theorem fetch_all_settles:
  "\<exists>scorecard_map.
      fetch_all api results = Inr scorecard_map \<and>
      dom scorecard_map = set (map sid results) \<and>
      (\<forall>s \<in> set (map sid results).
         (fetch_failed (api s) \<longrightarrow> scorecard_map s = Some PNone) \<and>
         (\<forall>v. api s = Responded 200 (Json v) \<longrightarrow> scorecard_map s = Some v)) \<and>
      process_stock_data_async api results =
        Inr (build_rows scorecard_map results
               ([], \<lparr>scorecard_fetch_errors = 0, scorecard_parse_errors = 0\<rparr>))"
proof -
  let ?g = "\<lambda>s. case api s of
               Unreachable \<Rightarrow> PNone
             | Responded status body \<Rightarrow>
                 if status = 200 then (case body of Malformed \<Rightarrow> PNone | Json v \<Rightarrow> v) else PNone"
  let ?m = "\<lambda>k. if k \<in> set (map sid results) then Some (?g k) else None"
  have r: "fetch_all api results = Inr ?m" by (rule fetch_all_result)
  have dm: "dom ?m = set (map sid results)"
    by (auto simp: dom_def)
  have v: "\<forall>s \<in> set (map sid results).
           (fetch_failed (api s) \<longrightarrow> ?m s = Some PNone) \<and>
           (\<forall>v. api s = Responded 200 (Json v) \<longrightarrow> ?m s = Some v)"
    by (auto simp: fetch_failed_def split: fetch_outcome.splits response_body.splits)
  have p: "process_stock_data_async api results =
        Inr (build_rows ?m results ([], \<lparr>scorecard_fetch_errors = 0, scorecard_parse_errors = 0\<rparr>))"
    by (simp add: process_stock_data_async_def r)
  show ?thesis
    by (rule exI[of _ ?m]) (intro conjI r dm v p)
qed

text \<open>Five ids, the third unreachable: the map has all five, and five rows are built.\<close>

theorem fetch_all_settles_witness:
  "\<exists>scorecard_map rows errs.
      fetch_all third_fails (map stock_with_sid [''S1'', ''S2'', ''S3'', ''S4'', ''S5'']) =
        Inr scorecard_map \<and>
      dom scorecard_map = {''S1'', ''S2'', ''S3'', ''S4'', ''S5''} \<and>
      scorecard_map ''S3'' = Some PNone \<and>
      scorecard_map ''S4'' = Some (PDict [(''data'', PList [])]) \<and>
      process_stock_data_async third_fails
        (map stock_with_sid [''S1'', ''S2'', ''S3'', ''S4'', ''S5'']) = Inr (rows, errs) \<and>
      length rows = 5"
proof -
  let ?results = "map stock_with_sid [''S1'', ''S2'', ''S3'', ''S4'', ''S5'']"
  have sids: "map sid ?results = [''S1'', ''S2'', ''S3'', ''S4'', ''S5'']"
    by (simp add: stock_with_sid_def)
  from fetch_all_settles[of third_fails ?results] obtain m where
    g: "fetch_all third_fails ?results = Inr m"
    and d: "dom m = set (map sid ?results)"
    and v: "\<forall>s \<in> set (map sid ?results).
           (fetch_failed (third_fails s) \<longrightarrow> m s = Some PNone) \<and>
           (\<forall>v. third_fails s = Responded 200 (Json v) \<longrightarrow> m s = Some v)"
    and p: "process_stock_data_async third_fails ?results =
        Inr (build_rows m ?results ([], \<lparr>scorecard_fetch_errors = 0, scorecard_parse_errors = 0\<rparr>))"
    by (elim exE conjE)
  have "''S3'' \<in> set (map sid ?results)" "fetch_failed (third_fails ''S3'')"
    by (simp_all add: stock_with_sid_def third_fails_def fetch_failed_def)
  with v have 3: "m ''S3'' = Some PNone" by blast
  have "''S4'' \<in> set (map sid ?results)"
       "third_fails ''S4'' = Responded 200 (Json (PDict [(''data'', PList [])]))"
    by (simp_all add: stock_with_sid_def third_fails_def)
  with v have 4: "m ''S4'' = Some (PDict [(''data'', PList [])])" by blast
  from d sids have d': "dom m = {''S1'', ''S2'', ''S3'', ''S4'', ''S5''}" by simp
  obtain rows errs where re:
    "build_rows m ?results ([], \<lparr>scorecard_fetch_errors = 0, scorecard_parse_errors = 0\<rparr>)
       = (rows, errs)"
    by (cases "build_rows m ?results
                 ([], \<lparr>scorecard_fetch_errors = 0, scorecard_parse_errors = 0\<rparr>)")
  have "length (fst (build_rows m ?results
          ([], \<lparr>scorecard_fetch_errors = 0, scorecard_parse_errors = 0\<rparr>))) =
        length ([] :: stock_entry list) + length ?results"
    by (rule build_rows_length)
  then have l: "length rows = 5" unfolding re by simp
  from p re have p': "process_stock_data_async third_fails ?results = Inr (rows, errs)"
    by simp
  show ?thesis
    by (rule exI[of _ m], rule exI[of _ rows], rule exI[of _ errs]) (intro conjI g d' 3 4 p' l)
qed

lemma fetch_all_returns_on_gather:
  "fetch_all api results = Inr m \<Longrightarrow>
     \<exists>rs. gather (map (\<lambda>stock_data. fetch_scorecard_async api (sid stock_data)) results) = Inr rs \<and>
          map fst rs = map sid results \<and> m = dict_of_pairs rs"
  by (auto simp: fetch_all_def fetch_scorecard_async_result gather_all_returned comp_def)

text \<open>The fetch-error counter is never written after its initialisation.\<close>
lemma scorecard_summary_of_fetch_errors:
  "scorecard_fetch_errors (snd (scorecard_summary_of scorecard errs)) = scorecard_fetch_errors errs"
  by (simp add: scorecard_summary_of_def split: sum.splits)

lemma build_rows_fetch_errors:
  "scorecard_fetch_errors (snd (build_rows m rs (acc, errs))) = scorecard_fetch_errors errs"
proof (induction rs arbitrary: acc errs)
  case Nil
  then show ?case by simp
next
  case (Cons stock_data rest)
  obtain summ errs' where s: "scorecard_summary_of (map_get m (sid stock_data)) errs = (summ, errs')"
    by (cases "scorecard_summary_of (map_get m (sid stock_data)) errs")
  then have "scorecard_fetch_errors errs' = scorecard_fetch_errors errs"
    using scorecard_summary_of_fetch_errors[of "map_get m (sid stock_data)" errs] by simp
  with Cons.IH s show ?case by simp
qed

lemma fetch_errors_never_counted:
  "process_stock_data_async api results = Inr (export_data, errs) \<Longrightarrow>
     scorecard_fetch_errors errs = 0"
  unfolding process_stock_data_async_def Let_def
  using build_rows_fetch_errors
  by (auto split: sum.splits) (metis errors.select_convs(1) snd_conv)

text \<open>
  C5 says that the reported error counts equal the numbers of failures, so that one
  failed retrieval among five gives a fetch-failure count of 1. The counter
  \<^verbatim>\<open>errors['scorecard_fetch_errors']\<close> is set to 0 and printed, and no statement
  increments it: with five ids of which the third is unreachable, the run reports 0
  while one retrieval has failed.
\<close>
theorem fetch_failure_not_counted:
  "main (Some (map stock_with_sid [''S1'', ''S2'', ''S3'', ''S4'', ''S5''])) third_fails =
     Inr (Some \<lparr> total_stocks = 5, fetch_errors_reported = 0, parse_errors_reported = 0 \<rparr>) \<and>
   length (filter (\<lambda>stock_data. fetch_failed (third_fails (sid stock_data)))
             (map stock_with_sid [''S1'', ''S2'', ''S3'', ''S4'', ''S5''])) = 1"
  by (simp add: main_def process_stock_data_async_def fetch_all_def fetch_scorecard_async_def
      fetch_try_def third_fails_def stock_with_sid_def dict_of_pairs_def map_get_def
      scorecard_summary_of_def extract_scorecard_summary_csv_def make_stock_entry_def get_or_def
      identify_top_holding_changes_def holding_columns_def column_dtype_def to_frame_def
      fetch_failed_def Let_def)

text \<open>The same run, read off: a report is printed, its fetch-error count is 0.\<close>

theorem fetch_failure_not_counted_witness:
  "\<exists>r. main (Some (map stock_with_sid [''S1'', ''S2'', ''S3'', ''S4'', ''S5''])) third_fails =
          Inr (Some r) \<and>
       fetch_errors_reported r = 0 \<and>
       fetch_failed (third_fails ''S3'')"
proof -
  from fetch_failure_not_counted have
    m: "main (Some (map stock_with_sid [''S1'', ''S2'', ''S3'', ''S4'', ''S5''])) third_fails =
     Inr (Some \<lparr> total_stocks = 5, fetch_errors_reported = 0, parse_errors_reported = 0 \<rparr>)"
    by (rule conjunct1)
  have z: "fetch_errors_reported
             \<lparr> total_stocks = 5, fetch_errors_reported = 0, parse_errors_reported = 0 \<rparr> = 0"
    by simp
  have f: "fetch_failed (third_fails ''S3'')"
    by (simp add: third_fails_def fetch_failed_def)
  show ?thesis by (intro exI conjI) (rule m, rule z, rule f)
qed

section \<open>Properties of the row builder\<close>

lemma scorecard_summary_of_fst:
  "fst (scorecard_summary_of scorecard errs) = fst (scorecard_summary_of scorecard errs')"
  by (simp add: scorecard_summary_of_def split: sum.splits)

lemma build_rows_map:
  "fst (build_rows m rs (acc, errs)) =
     acc @ map (\<lambda>stock_data. make_stock_entry stock_data
                  (fst (scorecard_summary_of (map_get m (sid stock_data)) e0))) rs"
proof (induction rs arbitrary: acc errs)
  case Nil
  then show ?case by simp
next
  case (Cons stock_data rest)
  obtain summ errs' where s: "scorecard_summary_of (map_get m (sid stock_data)) errs = (summ, errs')"
    by (cases "scorecard_summary_of (map_get m (sid stock_data)) errs")
  then have "summ = fst (scorecard_summary_of (map_get m (sid stock_data)) e0)"
    using scorecard_summary_of_fst[of "map_get m (sid stock_data)" errs e0] by simp
  with Cons.IH[of "acc @ [make_stock_entry stock_data summ]" errs'] s show ?case by simp
qed

lemma no_summary_all_unknown:
  assumes "\<not> truthy scorecard \<or> (\<exists>e. extract_scorecard_summary_csv scorecard = Inl e)"
  shows "fst (scorecard_summary_of scorecard errs) = []"
  using assms by (auto simp: scorecard_summary_of_def)

text \<open>
  C6. For every list of screener results and every scorecard map, the row loop yields
  exactly one row per result, the row at each position built from the result at that
  position (so the order is the input's), and a result whose id has no document in the
  map (no key, or \<^verbatim>\<open>None\<close>, or any other falsy value) or whose normalization raises
  gets \<^verbatim>\<open>'N/A'\<close> in all six scorecard fields.
\<close>
theorem row_builder_one_row_each:
  assumes "rows = fst (build_rows scorecard_map results ([], errs))"
  shows "length rows = length results \<and>
         (\<forall>i < length results.
            (\<exists>scorecard_summary. rows ! i = make_stock_entry (results ! i) scorecard_summary) \<and>
            company_name (rows ! i) = info_name (results ! i) \<and>
            ticker (rows ! i) = info_ticker (results ! i) \<and>
            (\<not> truthy (map_get scorecard_map (sid (results ! i))) \<or>
             (\<exists>e. extract_scorecard_summary_csv (map_get scorecard_map (sid (results ! i))) = Inl e)
             \<longrightarrow> valuation_score (rows ! i) = PStr ''N/A'' \<and>
                 performance_score (rows ! i) = PStr ''N/A'' \<and>
                 profitability_score (rows ! i) = PStr ''N/A'' \<and>
                 growth_score (rows ! i) = PStr ''N/A'' \<and>
                 entry_point_score (rows ! i) = PStr ''N/A'' \<and>
                 red_flags_score (rows ! i) = PStr ''N/A''))"
proof (intro conjI allI impI)
  have r: "rows = map (\<lambda>stock_data. make_stock_entry stock_data
                  (fst (scorecard_summary_of (map_get scorecard_map (sid stock_data)) errs))) results"
    using assms build_rows_map[of scorecard_map results "[]" errs errs] by simp
  show "length rows = length results" by (simp add: r)
  fix i assume i: "i < length results"
  then have ri: "rows ! i = make_stock_entry (results ! i)
                  (fst (scorecard_summary_of (map_get scorecard_map (sid (results ! i))) errs))"
    by (simp add: r)
  then show "\<exists>scorecard_summary. rows ! i = make_stock_entry (results ! i) scorecard_summary" ..
  show "company_name (rows ! i) = info_name (results ! i)" by (simp add: ri make_stock_entry_def)
  show "ticker (rows ! i) = info_ticker (results ! i)" by (simp add: ri make_stock_entry_def)
  assume "\<not> truthy (map_get scorecard_map (sid (results ! i))) \<or>
             (\<exists>e. extract_scorecard_summary_csv (map_get scorecard_map (sid (results ! i))) = Inl e)"
  then have e: "rows ! i = make_stock_entry (results ! i) []"
    using ri no_summary_all_unknown by simp
  show "valuation_score (rows ! i) = PStr ''N/A''"
    by (simp add: e make_stock_entry_def summary_get_def)
  show "performance_score (rows ! i) = PStr ''N/A''"
    by (simp add: e make_stock_entry_def summary_get_def)
  show "profitability_score (rows ! i) = PStr ''N/A''"
    by (simp add: e make_stock_entry_def summary_get_def)
  show "growth_score (rows ! i) = PStr ''N/A''"
    by (simp add: e make_stock_entry_def summary_get_def)
  show "entry_point_score (rows ! i) = PStr ''N/A''"
    by (simp add: e make_stock_entry_def summary_get_def)
  show "red_flags_score (rows ! i) = PStr ''N/A''"
    by (simp add: e make_stock_entry_def summary_get_def)
qed

text \<open>Three results, a map with documents for the first and the third.\<close>
theorem row_builder_one_row_each_witness:
  "length (fst (build_rows two_of_three (map stock_with_sid [''S1'', ''S2'', ''S3''])
                  ([], \<lparr>scorecard_fetch_errors = 0, scorecard_parse_errors = 0\<rparr>))) = 3 \<and>
   map company_name (fst (build_rows two_of_three (map stock_with_sid [''S1'', ''S2'', ''S3''])
                  ([], \<lparr>scorecard_fetch_errors = 0, scorecard_parse_errors = 0\<rparr>)))
     = [''S1'', ''S2'', ''S3''] \<and>
   growth_score (fst (build_rows two_of_three (map stock_with_sid [''S1'', ''S2'', ''S3''])
                  ([], \<lparr>scorecard_fetch_errors = 0, scorecard_parse_errors = 0\<rparr>)) ! 1)
     = PStr ''N/A''"
proof -
  let ?results = "map stock_with_sid [''S1'', ''S2'', ''S3'']"
  let ?rows = "fst (build_rows two_of_three ?results
                  ([], \<lparr>scorecard_fetch_errors = 0, scorecard_parse_errors = 0\<rparr>))"
  note t = row_builder_one_row_each[of ?rows two_of_three ?results, OF refl]
  from t have len: "length ?rows = 3" by simp
  have miss: "\<not> truthy (map_get two_of_three (sid (?results ! 1)))"
    by (simp add: map_get_def two_of_three_def stock_with_sid_def)
  from t have
    "\<forall>i < length ?results. company_name (?rows ! i) = info_name (?results ! i)"
    by blast
  then have n: "\<forall>i < 3. company_name (?rows ! i) = info_name (?results ! i)" by simp
  have names: "map company_name ?rows = [''S1'', ''S2'', ''S3'']"
  proof (rule nth_equalityI)
    show "length (map company_name ?rows) = length [''S1'', ''S2'', ''S3'']" using len by simp
    fix i assume "i < length (map company_name ?rows)"
    then have i: "i < 3" using len by simp
    then have "i = 0 \<or> i = 1 \<or> i = 2" by arith
    with n i len show "map company_name ?rows ! i = [''S1'', ''S2'', ''S3''] ! i"
      by (auto simp: stock_with_sid_def)
  qed
  have "(1::nat) < length ?results" by simp
  with t miss have g: "growth_score (?rows ! 1) = PStr ''N/A''" by blast
  show ?thesis by (intro conjI len names g)
qed

section \<open>Properties of the ranker\<close>

subsection \<open>Sorting\<close>

lemma insert_desc_map:
  "insert_desc f (g x) (map g ys) = map g (insert_desc (\<lambda>a. f (g a)) x ys)"
  by (induction ys) simp_all

lemma sort_desc_map: "sort_desc f (map g xs) = map g (sort_desc (\<lambda>a. f (g a)) xs)"
  unfolding sort_desc_def by (induction xs) (simp_all add: insert_desc_map)









subsection \<open>Columns of numbers\<close>


lemma astype_float [simp]: "astype d (PyFloat r) = PyFloat r"
  by (cases d) simp_all

lemma astype_other: "d \<noteq> Float64 \<Longrightarrow> astype d x = x"
  by (cases d; cases x) simp_all

lemma column_dtype_floats:
  assumes "ys \<noteq> []" and "\<forall>y \<in> set ys. \<exists>r. y = PyFloat r"
  shows "column_dtype ys = Float64"
proof -
  from assms(1) obtain y where y: "y \<in> set ys" by (cases ys) auto
  with assms(2) obtain r where "y = PyFloat r" by blast
  with y have f: "\<exists>x \<in> set ys. case x of PyInt n \<Rightarrow> False | PyFloat r \<Rightarrow> True" by force
  have n: "\<not> (\<exists>x \<in> set ys. case x of PyInt n \<Rightarrow> P n | PyFloat r \<Rightarrow> False)" for P
    using assms(2) by force
  show ?thesis
    unfolding column_dtype_def Let_def using f n by simp
qed

lemma stored_column:
  "map (stored (map (stored xs) xs)) (map (stored xs) xs) = map (stored xs) xs \<and>
   (column_dtype (map (stored xs) xs) = Object \<longleftrightarrow> column_dtype xs = Object)"
proof (cases "column_dtype xs = Float64")
  case True
  let ?ys = "map (stored xs) xs"
  have fl: "\<forall>y \<in> set ?ys. \<exists>r. y = PyFloat r"
  proof
    fix y assume "y \<in> set ?ys"
    then obtain x where "y = astype Float64 x" by (auto simp: stored_def True)
    then show "\<exists>r. y = PyFloat r" by (cases x) simp_all
  qed
  show ?thesis
  proof (cases "xs = []")
    case e: True
    then show ?thesis by simp
  next
    case False
    then have "?ys \<noteq> []" by simp
    from column_dtype_floats[OF this fl] have d: "column_dtype ?ys = Float64" .
    have "map (stored ?ys) ?ys = ?ys"
    proof (rule map_idI)
      fix y assume "y \<in> set ?ys"
      with fl obtain r where "y = PyFloat r" by blast
      then show "stored ?ys y = y" by (simp add: stored_def)
    qed
    with d True show ?thesis by simp
  qed
next
  case False
  then have "map (stored xs) xs = xs"
    by (intro map_idI) (simp add: stored_def astype_other)
  then show ?thesis by simp
qed



subsection \<open>The frame\<close>

lemma number_of_eq:
  "number_of PE_Ratio = pe_ratio"
  "number_of Last_Price = last_price"
  "number_of Market_Cap = market_cap"
  "number_of MF_Holding_6M = mf_holding_change_6m"
  "number_of MF_Holding_3M = mf_holding_change_3m"
  "number_of FII_Holding_6M = fii_holding_change_6m"
  "number_of FII_Holding_3M = fii_holding_change_3m"
  "number_of EBITDA = ebitda"
  "number_of Return_vs_Nifty_1Y = return_vs_nifty_1y"
  "number_of Forward_EBITDA_Growth_1Y = forward_ebitda_growth_1y"
  by (simp_all add: fun_eq_iff)

lemma number_of_frame_row:
  "number_of c (frame_row D row) = stored (map (number_of c) D) (number_of c row)"
  by (cases c) (simp_all add: frame_row_def number_of_eq)

lemma column_value_number_of:
  "column_value column =
     number_of (case column of MF_6M \<Rightarrow> MF_Holding_6M | MF_3M \<Rightarrow> MF_Holding_3M
                | FII_6M \<Rightarrow> FII_Holding_6M | FII_3M \<Rightarrow> FII_Holding_3M)"
  by (cases column) (simp_all add: fun_eq_iff)


lemma frame_row_text [simp]:
  "company_name (frame_row D row) = company_name row"
  "ticker (frame_row D row) = ticker row"
  "sector (frame_row D row) = sector row"
  "sub_sector (frame_row D row) = sub_sector row"
  "top_20_all_columns (frame_row D row) = top_20_all_columns row"
  by (simp_all add: frame_row_def)

lemma frame_row_flag:
  "frame_row D (row\<lparr>top_20_all_columns := x\<rparr>) = (frame_row D row)\<lparr>top_20_all_columns := x\<rparr>"
  by (simp add: frame_row_def)

lemma number_of_flag [simp]:
  "number_of c (row\<lparr>top_20_all_columns := x\<rparr>) = number_of c row"
  by (cases c) simp_all

lemma column_value_flag [simp]:
  "column_value column (row\<lparr>top_20_all_columns := x\<rparr>) = column_value column row"
  by (cases column) simp_all

lemma frame_row_fixed:
  assumes "\<forall>c. stored (map (number_of c) D) (number_of c r) = number_of c r"
  shows "frame_row D r = r"
proof -
  have f0: "stored (map pe_ratio D) (pe_ratio r) = pe_ratio r"
    using assms[rule_format, of PE_Ratio] by (simp add: number_of_eq)
  have f1: "stored (map last_price D) (last_price r) = last_price r"
    using assms[rule_format, of Last_Price] by (simp add: number_of_eq)
  have f2: "stored (map market_cap D) (market_cap r) = market_cap r"
    using assms[rule_format, of Market_Cap] by (simp add: number_of_eq)
  have f3: "stored (map mf_holding_change_6m D) (mf_holding_change_6m r) = mf_holding_change_6m r"
    using assms[rule_format, of MF_Holding_6M] by (simp add: number_of_eq)
  have f4: "stored (map mf_holding_change_3m D) (mf_holding_change_3m r) = mf_holding_change_3m r"
    using assms[rule_format, of MF_Holding_3M] by (simp add: number_of_eq)
  have f5: "stored (map fii_holding_change_6m D) (fii_holding_change_6m r) = fii_holding_change_6m r"
    using assms[rule_format, of FII_Holding_6M] by (simp add: number_of_eq)
  have f6: "stored (map fii_holding_change_3m D) (fii_holding_change_3m r) = fii_holding_change_3m r"
    using assms[rule_format, of FII_Holding_3M] by (simp add: number_of_eq)
  have f7: "stored (map ebitda D) (ebitda r) = ebitda r"
    using assms[rule_format, of EBITDA] by (simp add: number_of_eq)
  have f8: "stored (map return_vs_nifty_1y D) (return_vs_nifty_1y r) = return_vs_nifty_1y r"
    using assms[rule_format, of Return_vs_Nifty_1Y] by (simp add: number_of_eq)
  have f9: "stored (map forward_ebitda_growth_1y D) (forward_ebitda_growth_1y r) = forward_ebitda_growth_1y r"
    using assms[rule_format, of Forward_EBITDA_Growth_1Y] by (simp add: number_of_eq)
  show ?thesis
    unfolding frame_row_def f0 f1 f2 f3 f4 f5 f6 f7 f8 f9 by simp
qed

lemma frame_row_cong:
  assumes "\<forall>c. column_dtype (map (number_of c) D') = column_dtype (map (number_of c) D)"
  shows "frame_row D' r = frame_row D r"
proof -
  have f0: "column_dtype (map pe_ratio D') = column_dtype (map pe_ratio D)"
    using assms[rule_format, of PE_Ratio] by (simp add: number_of_eq)
  have f1: "column_dtype (map last_price D') = column_dtype (map last_price D)"
    using assms[rule_format, of Last_Price] by (simp add: number_of_eq)
  have f2: "column_dtype (map market_cap D') = column_dtype (map market_cap D)"
    using assms[rule_format, of Market_Cap] by (simp add: number_of_eq)
  have f3: "column_dtype (map mf_holding_change_6m D') = column_dtype (map mf_holding_change_6m D)"
    using assms[rule_format, of MF_Holding_6M] by (simp add: number_of_eq)
  have f4: "column_dtype (map mf_holding_change_3m D') = column_dtype (map mf_holding_change_3m D)"
    using assms[rule_format, of MF_Holding_3M] by (simp add: number_of_eq)
  have f5: "column_dtype (map fii_holding_change_6m D') = column_dtype (map fii_holding_change_6m D)"
    using assms[rule_format, of FII_Holding_6M] by (simp add: number_of_eq)
  have f6: "column_dtype (map fii_holding_change_3m D') = column_dtype (map fii_holding_change_3m D)"
    using assms[rule_format, of FII_Holding_3M] by (simp add: number_of_eq)
  have f7: "column_dtype (map ebitda D') = column_dtype (map ebitda D)"
    using assms[rule_format, of EBITDA] by (simp add: number_of_eq)
  have f8: "column_dtype (map return_vs_nifty_1y D') = column_dtype (map return_vs_nifty_1y D)"
    using assms[rule_format, of Return_vs_Nifty_1Y] by (simp add: number_of_eq)
  have f9: "column_dtype (map forward_ebitda_growth_1y D') = column_dtype (map forward_ebitda_growth_1y D)"
    using assms[rule_format, of Forward_EBITDA_Growth_1Y] by (simp add: number_of_eq)
  show ?thesis
    unfolding frame_row_def stored_def f0 f1 f2 f3 f4 f5 f6 f7 f8 f9 ..
qed

lemma length_to_frame [simp]: "length (to_frame D) = length D"
  by (simp add: to_frame_def)


lemma number_column_to_frame:
  "map (number_of c) (to_frame D) = map (stored (map (number_of c) D)) (map (number_of c) D)"
  by (simp add: to_frame_def number_of_frame_row comp_def)

lemma holding_column_to_frame:
  "map (column_value column) (to_frame D) =
     map (stored (map (column_value column) D)) (map (column_value column) D)"
  unfolding column_value_number_of by (rule number_column_to_frame)

lemma frame_row_of_frame:
  assumes "r \<in> set (to_frame D)"
  shows "frame_row (to_frame D) r = r"
proof (rule frame_row_fixed, rule allI)
  fix c
  let ?xs = "map (number_of c) D"
  from assms have "number_of c r \<in> set (map (number_of c) (to_frame D))" by simp
  then have m: "number_of c r \<in> set (map (stored ?xs) ?xs)"
    by (simp only: number_column_to_frame)
  have "map (stored (map (stored ?xs) ?xs)) (map (stored ?xs) ?xs) = map (stored ?xs) ?xs"
    using stored_column[of ?xs] by (rule conjunct1)
  then have "\<forall>y \<in> set (map (stored ?xs) ?xs). stored (map (stored ?xs) ?xs) y = y"
    by (simp only: map_eq_conv[symmetric] list.map_id) (metis map_idI map_eq_conv)
  with m show "stored (map (number_of c) (to_frame D)) (number_of c r) = number_of c r"
    by (simp only: number_column_to_frame)
qed

lemma to_frame_idem: "to_frame (to_frame D) = to_frame D"
  unfolding to_frame_def[of "to_frame D"]
  by (rule map_idI) (rule frame_row_of_frame)

lemma object_holding_column_to_frame:
  "object_holding_column (to_frame D) \<longleftrightarrow> object_holding_column D"
proof -
  have "column_dtype (map (column_value column) (to_frame D)) = Object \<longleftrightarrow>
        column_dtype (map (column_value column) D) = Object" for column
    unfolding holding_column_to_frame
    using stored_column[of "map (column_value column) D"] by (rule conjunct2)
  then show ?thesis
    unfolding object_holding_column_def by simp
qed

subsection \<open>The flags\<close>

lemma identify_returns:
  assumes "D \<noteq> []" and "\<not> object_holding_column D"
  shows "identify_top_holding_changes D =
       Inr (map (\<lambda>row. row\<lparr>top_20_all_columns := Some (top_20_flag (to_frame D) row)\<rparr>) (to_frame D),
            map (\<lambda>column. (column, top_20_records (to_frame D) column)) holding_columns)"
  using assms by (simp add: identify_top_holding_changes_def object_holding_column_def Let_def)













lemma no_object_holding_rows:
  assumes "vs \<noteq> []"
  shows "\<not> object_holding_column (map (\<lambda>v. holding_row (PyFloat v)) vs)"
proof -
  have "column_dtype (map (column_value column) (map (\<lambda>v. holding_row (PyFloat v)) vs)) = Float64"
    for column
  proof (rule column_dtype_floats)
    show "map (column_value column) (map (\<lambda>v. holding_row (PyFloat v)) vs) \<noteq> []"
      using assms by simp
    show "\<forall>y\<in>set (map (column_value column) (map (\<lambda>v. holding_row (PyFloat v)) vs)).
            \<exists>r. y = PyFloat r"
      by (cases column) (auto simp: holding_row_def)
  qed
  then show ?thesis by (simp add: object_holding_column_def)
qed






subsection \<open>Running the ranker on its own output\<close>

lemma nlargest_flagged:
  "nlargest n column (map (\<lambda>row. row\<lparr>top_20_all_columns := Some (h row)\<rparr>) df) =
     map (\<lambda>row. row\<lparr>top_20_all_columns := Some (h row)\<rparr>) (nlargest n column df)"
  by (simp add: nlargest_def sort_desc_map take_map)

lemma top_20_per_column_flagged:
  "top_20_per_column (map (\<lambda>row. row\<lparr>top_20_all_columns := Some (h row)\<rparr>) df) column =
     top_20_per_column df column"
  by (simp add: top_20_per_column_def nlargest_flagged comp_def)

lemma top_20_records_flagged:
  "top_20_records (map (\<lambda>row. row\<lparr>top_20_all_columns := Some (h row)\<rparr>) df) column =
     top_20_records df column"
  by (simp add: top_20_records_def nlargest_flagged comp_def)

lemma top_20_flag_flagged:
  "top_20_flag (map (\<lambda>row. row\<lparr>top_20_all_columns := Some (h row)\<rparr>) df)
       (row\<lparr>top_20_all_columns := x\<rparr>) = top_20_flag df row"
  by (simp add: top_20_flag_def top_20_per_column_flagged)

lemma to_frame_flagged:
  "to_frame (map (\<lambda>row. row\<lparr>top_20_all_columns := Some (h row)\<rparr>) (to_frame D)) =
     map (\<lambda>row. row\<lparr>top_20_all_columns := Some (h row)\<rparr>) (to_frame D)"
proof -
  let ?g = "\<lambda>row. row\<lparr>top_20_all_columns := Some (h row)\<rparr>"
  let ?F = "to_frame D"
  have cols: "map (number_of c) (map ?g ?F) = map (number_of c) ?F" for c
    by (simp add: comp_def)
  have fr: "frame_row (map ?g ?F) r = frame_row ?F r" for r
    by (rule frame_row_cong) (simp only: cols, simp)
  have "map (frame_row (map ?g ?F)) (map ?g ?F) = map ?g ?F"
  proof (rule map_idI)
    fix x assume "x \<in> set (map ?g ?F)"
    then obtain r where r: "r \<in> set ?F" and x: "x = ?g r" by auto
    have "frame_row (map ?g ?F) x = (frame_row ?F r)\<lparr>top_20_all_columns := Some (h r)\<rparr>"
      unfolding fr x by (rule frame_row_flag)
    also have "\<dots> = x" unfolding x frame_row_of_frame[OF r] ..
    finally show "frame_row (map ?g ?F) x = x" .
  qed
  then show ?thesis unfolding to_frame_def[of "map ?g ?F"] .
qed

lemma object_holding_column_flagged:
  "object_holding_column (map (\<lambda>row. row\<lparr>top_20_all_columns := Some (h row)\<rparr>) df) \<longleftrightarrow>
     object_holding_column df"
  by (simp add: object_holding_column_def comp_def)

text \<open>
  C9. Running the ranker on its own output gives the same result as running it once,
  for every list of rows (where the first run raises, there is no second).
\<close>
theorem ranker_idempotent:
  "(case identify_top_holding_changes export_data of
      Inl e \<Rightarrow> Inl e
    | Inr (out, tops) \<Rightarrow> identify_top_holding_changes out)
   = identify_top_holding_changes export_data"
proof (cases "identify_top_holding_changes export_data")
  case (Inl e)
  then show ?thesis by simp
next
  case (Inr r)
  then have ne: "export_data \<noteq> []" and no: "\<not> object_holding_column export_data"
    by (auto simp: identify_top_holding_changes_def object_holding_column_def Let_def
             split: if_splits)
  let ?F = "to_frame export_data"
  let ?g = "\<lambda>row. row\<lparr>top_20_all_columns := Some (top_20_flag ?F row)\<rparr>"
  let ?tops = "map (\<lambda>column. (column, top_20_records ?F column)) holding_columns"
  note ret = identify_returns[OF ne no]
  have ne': "map ?g ?F \<noteq> []" using ne by (simp add: to_frame_def)
  have no': "\<not> object_holding_column (map ?g ?F)"
    unfolding object_holding_column_flagged object_holding_column_to_frame by (rule no)
  have "identify_top_holding_changes (map ?g ?F) = Inr (map ?g ?F, ?tops)"
    unfolding identify_returns[OF ne' no'] to_frame_flagged
    by (simp add: top_20_flag_flagged top_20_records_flagged)
  then show ?thesis unfolding ret sum.case prod.case .
qed

text \<open>Two rows, on which the ranker returns.\<close>
theorem ranker_idempotent_witness:
  "(case identify_top_holding_changes [holding_row (PyFloat 5), holding_row (PyFloat 7)] of
      Inl e \<Rightarrow> Inl e
    | Inr (out, tops) \<Rightarrow> identify_top_holding_changes out)
   = identify_top_holding_changes [holding_row (PyFloat 5), holding_row (PyFloat 7)] \<and>
   (\<exists>r. identify_top_holding_changes [holding_row (PyFloat 5), holding_row (PyFloat 7)] = Inr r)"
proof -
  have "\<not> object_holding_column (map (\<lambda>v. holding_row (PyFloat v)) [5, 7])"
    by (rule no_object_holding_rows) simp
  then have "\<not> object_holding_column [holding_row (PyFloat 5), holding_row (PyFloat 7)]"
    by simp
  from identify_returns[OF _ this]
  have "\<exists>r. identify_top_holding_changes [holding_row (PyFloat 5), holding_row (PyFloat 7)] = Inr r"
    by simp
  with ranker_idempotent[of "[holding_row (PyFloat 5), holding_row (PyFloat 7)]"]
  show ?thesis by (rule conjI)
qed

subsection \<open>Permutations\<close>









lemma score_of_frame_row [simp]: "score_of sc (frame_row D row) = score_of sc row"
  by (cases sc) (simp_all add: frame_row_def)

lemma score_of_flag [simp]: "score_of sc (row\<lparr>top_20_all_columns := x\<rparr>) = score_of sc row"
  by (cases sc) simp_all








end
